theory Spec2Isabelle
  imports Complex_Main "HOL-Library.Sublist"
begin

section \<open>Configuration (internal/infrastructure/config/config.go)\<close>

text \<open>
  The process environment is a finite table of variables.  Go's \<^verbatim>\<open>os.Getenv\<close> returns the
  empty string for a variable that is not set, so an unset variable and one set to the empty
  string cannot be told apart by the code below.
\<close>

type_synonym environ = "string \<rightharpoonup> string"

definition Getenv :: "environ \<Rightarrow> string \<Rightarrow> string" where
  "Getenv env key = (case env key of None \<Rightarrow> [] | Some v \<Rightarrow> v)"

record ServerConfig =
  Port :: string
  Host :: string

record OTLPConfig =
  Enabled :: bool
  Endpoint :: string
  ServiceName :: string
  Environment :: string

record Config =
  Server :: ServerConfig
  OTLP :: OTLPConfig

definition getEnv :: "environ \<Rightarrow> string \<Rightarrow> string \<Rightarrow> string" where
  "getEnv env key defaultValue =
     (let v = Getenv env key in if v \<noteq> [] then v else defaultValue)"

definition getEnvBool :: "environ \<Rightarrow> string \<Rightarrow> bool \<Rightarrow> bool" where
  "getEnvBool env key defaultValue =
     (let v = Getenv env key in
      if v \<noteq> [] then (v = ''true'' \<or> v = ''1'' \<or> v = ''yes'') else defaultValue)"

definition LoadConfig :: "environ \<Rightarrow> Config" where
  "LoadConfig env =
     \<lparr> Server = \<lparr> Port = getEnv env ''SERVER_PORT'' ''8080'',
                  Host = getEnv env ''SERVER_HOST'' ''0.0.0.0'' \<rparr>,
       OTLP = \<lparr> Enabled = getEnvBool env ''OTEL_ENABLED'' True,
                Endpoint = getEnv env ''OTEL_EXPORTER_OTLP_ENDPOINT'' ''localhost:4317'',
                ServiceName = getEnv env ''OTEL_SERVICE_NAME'' ''products-api'',
                Environment = getEnv env ''OTEL_ENVIRONMENT'' ''development'' \<rparr> \<rparr>"

section \<open>Domain (internal/domain/product.go, internal/domain/repository.go)\<close>

text \<open>
  The three sentinel errors of the domain package, and \<open>OtherError\<close> for every other Go
  \<^verbatim>\<open>error\<close> value that reaches the HTTP layer (a JSON decoding error, for instance), carried
  by the text its \<^verbatim>\<open>Error()\<close> method returns.
\<close>

datatype error =
    ErrInvalidProductName
  | ErrInvalidProductPrice
  | ErrProductNotFound
  | OtherError string

fun Error_text :: "error \<Rightarrow> string" where
  "Error_text ErrInvalidProductName = ''product name is required''"
| "Error_text ErrInvalidProductPrice = ''product price must be positive''"
| "Error_text ErrProductNotFound = ''product not found''"
| "Error_text (OtherError m) = m"

text \<open>
  A \<^verbatim>\<open>time.Time\<close> is the reading of the clock, in nanoseconds.  A price is a finite
  \<^verbatim>\<open>float64\<close> (JSON cannot carry NaN or an infinity); the code only copies it and compares
  it with zero, so it is read as the real number it denotes.
\<close>

type_synonym time = nat

record Product =
  ID :: string
  Name :: string
  Description :: string
  Price :: real
  CreatedAt :: time
  UpdatedAt :: time

definition Validate :: "Product \<Rightarrow> error option" where
  "Validate p =
     (if Name p = [] then Some ErrInvalidProductName
      else if Price p \<le> 0 then Some ErrInvalidProductPrice
      else None)"

text \<open>
  Products live on the heap and are handled through pointers (\<^verbatim>\<open>*domain.Product\<close>).  The
  heap is the list of the objects allocated so far, an address is an index into it, and
  \<^verbatim>\<open>&Product{...}\<close> appends a new object.  No code of the repository writes to a Product
  after it has been built.
\<close>

type_synonym addr = nat
type_synonym heap = "Product list"

definition new_object :: "heap \<Rightarrow> Product \<Rightarrow> addr \<times> heap" where
  "new_object h p = (length h, h @ [p])"

definition deref :: "heap \<Rightarrow> addr \<Rightarrow> Product option" where
  "deref h a = (if a < length h then Some (h ! a) else None)"

text \<open>
  What \<^verbatim>\<open>NewProduct\<close> reads from outside: the identifier \<^verbatim>\<open>uuid.New().String()\<close>
  returns, and the two readings of \<^verbatim>\<open>time.Now()\<close>, one for each timestamp field, in the
  order of the struct literal.
\<close>

record entropy =
  uuid_New :: string
  time_Now_1 :: time
  time_Now_2 :: time

definition NewProduct ::
  "entropy \<Rightarrow> heap \<Rightarrow> string \<Rightarrow> string \<Rightarrow> real \<Rightarrow> (error + addr) \<times> heap" where
  "NewProduct e h name description price =
     (let (product, h') =
            new_object h \<lparr> ID = uuid_New e, Name = name, Description = description,
                            Price = price, CreatedAt = time_Now_1 e, UpdatedAt = time_Now_2 e \<rparr>
      in case Validate (h' ! product) of
           Some err \<Rightarrow> (Inl err, h')
         | None \<Rightarrow> (Inr product, h'))"

section \<open>Request context and structured logging (internal/infrastructure/telemetry/logger.go)\<close>

text \<open>
  Trace and span identifiers are carried by their hexadecimal renderings (32 and 16 digits).
  A span context is valid when neither identifier is all zeros; a context without a span
  yields the zero span context, as \<^verbatim>\<open>trace.SpanFromContext\<close> does.
\<close>

record SpanContext =
  TraceID :: string
  SpanID :: string

definition IsValid :: "SpanContext \<Rightarrow> bool" where
  "IsValid sc = (TraceID sc \<noteq> ''00000000000000000000000000000000'' \<and> SpanID sc \<noteq> ''0000000000000000'')"

record Context =
  ctx_span :: "SpanContext option"
  ctx_httpRoute :: "string option"

definition Background :: Context where
  "Background = \<lparr> ctx_span = None, ctx_httpRoute = None \<rparr>"

definition SpanFromContext :: "Context \<Rightarrow> SpanContext" where
  "SpanFromContext ctx =
     (case ctx_span ctx of
        None \<Rightarrow> \<lparr> TraceID = ''00000000000000000000000000000000'', SpanID = ''0000000000000000'' \<rparr>
      | Some sc \<Rightarrow> sc)"

definition WithHTTPRoute :: "Context \<Rightarrow> string \<Rightarrow> Context" where
  "WithHTTPRoute ctx route = ctx\<lparr> ctx_httpRoute := Some route \<rparr>"

definition HTTPRouteFromContext :: "Context \<Rightarrow> string" where
  "HTTPRouteFromContext ctx = (case ctx_httpRoute ctx of Some route \<Rightarrow> route | None \<Rightarrow> [])"

datatype attr_value = StringValue string | IntValue int | Float64Value real

type_synonym attr = "string \<times> attr_value"

datatype Level = LevelDebug | LevelInfo | LevelWarn | LevelError

text \<open>
  A log record as the handlers see it (its time stamp and source position are carried along
  untouched and are left out), and the line the JSON handler writes to standard output: level,
  message, then the handler's own attributes followed by the record's.
\<close>

record Record =
  rec_Level :: Level
  rec_Message :: string
  rec_Attrs :: "attr list"

record LogLine =
  line_level :: Level
  line_msg :: string
  line_fields :: "attr list"

definition AddAttrs :: "Record \<Rightarrow> attr list \<Rightarrow> Record" where
  "AddAttrs r attrs = r\<lparr> rec_Attrs := rec_Attrs r @ attrs \<rparr>"

text \<open>
  The two kinds of \<^verbatim>\<open>slog.Handler\<close> the program builds: the standard library's JSON handler
  (with the attributes given to it by \<^verbatim>\<open>WithAttrs\<close>), and \<^verbatim>\<open>traceContextHandler\<close> around
  another handler.
\<close>

datatype Handler =
    JSONHandler "attr list"
  | traceContextHandler Handler

fun Handle :: "Handler \<Rightarrow> Context \<Rightarrow> Record \<Rightarrow> LogLine" where
  "Handle (JSONHandler pre) ctx r =
     \<lparr> line_level = rec_Level r, line_msg = rec_Message r, line_fields = pre @ rec_Attrs r \<rparr>"
| "Handle (traceContextHandler handler) ctx r =
     (let span = SpanFromContext ctx;
          r1 = (if IsValid span
                then AddAttrs r [(''trace_id'', StringValue (TraceID span)),
                                 (''span_id'', StringValue (SpanID span))]
                else r);
          route = HTTPRouteFromContext ctx;
          r2 = (if route \<noteq> [] then AddAttrs r1 [(''http.route'', StringValue route)] else r1)
      in Handle handler ctx r2)"

fun WithAttrs :: "Handler \<Rightarrow> attr list \<Rightarrow> Handler" where
  "WithAttrs (JSONHandler pre) attrs = JSONHandler (pre @ attrs)"
| "WithAttrs (traceContextHandler handler) attrs = traceContextHandler (WithAttrs handler attrs)"

text \<open>The attributes a handler chain contributes by itself to every line.\<close>

fun handler_attrs :: "Handler \<Rightarrow> attr list" where
  "handler_attrs (JSONHandler pre) = pre"
| "handler_attrs (traceContextHandler handler) = handler_attrs handler"

text \<open>
  \<^verbatim>\<open>initLogger\<close>: the JSON handler wrapped by the trace context handler, then
  \<^verbatim>\<open>.With(service.name, environment)\<close>.
\<close>

definition initLogger :: "OTLPConfig \<Rightarrow> Handler" where
  "initLogger cfg =
     WithAttrs (traceContextHandler (JSONHandler []))
       [(''service.name'', StringValue (ServiceName cfg)),
        (''environment'', StringValue (Environment cfg))]"

section \<open>Telemetry events\<close>

text \<open>
  Everything the business code does to the tracer, the meter and the logger is an event of a
  trace that the functions return next to their results.  \<^verbatim>\<open>tracer.Start\<close> puts a new span
  into the context; which identifiers the SDK gives that span is a parameter (the tracer).
\<close>

datatype status_code = codes_Ok | codes_Error

datatype event =
    SpanStart string
  | SpanSetAttributes "attr list"
  | SpanRecordError error
  | SpanSetStatus status_code string
  | SpanEnd string
  | CounterAdd string int "attr list"
  | Log LogLine

type_synonym Tracer = "Context \<Rightarrow> string \<Rightarrow> SpanContext"

text \<open>A tracer that gives every span the same span context, and one such context.\<close>

definition const_Tracer :: "SpanContext \<Rightarrow> Tracer" where
  "const_Tracer sc ctx name = sc"

definition sc0 :: SpanContext where
  "sc0 = \<lparr> TraceID = ''4bf92f3577b34da6a3ce929d0e0e4736'', SpanID = ''00f067aa0ba902b7'' \<rparr>"

definition Start :: "Tracer \<Rightarrow> Context \<Rightarrow> string \<Rightarrow> Context" where
  "Start tracer ctx name = ctx\<lparr> ctx_span := Some (tracer ctx name) \<rparr>"

definition logEvent :: "Handler \<Rightarrow> Context \<Rightarrow> Level \<Rightarrow> string \<Rightarrow> attr list \<Rightarrow> event" where
  "logEvent logger ctx level msg attrs =
     Log (Handle logger ctx \<lparr> rec_Level = level, rec_Message = msg, rec_Attrs = attrs \<rparr>)"

section \<open>In-memory repository (internal/infrastructure/repository/memory)\<close>

text \<open>
  The map from identifiers to product pointers, with the tracer and the logger the repository
  was built with.  Every method holds the repository's lock for its whole body, so the
  methods run one at a time and each is a function from the state before to the state after.
\<close>

record ProductRepository =
  products :: "string \<rightharpoonup> addr"
  repo_tracer :: Tracer
  repo_logger :: Handler

definition NewProductRepository :: "Tracer \<Rightarrow> Handler \<Rightarrow> ProductRepository" where
  "NewProductRepository tracer logger =
     \<lparr> products = Map.empty, repo_tracer = tracer, repo_logger = logger \<rparr>"

definition Create ::
  "ProductRepository \<Rightarrow> heap \<Rightarrow> Context \<Rightarrow> addr \<Rightarrow> error option \<times> ProductRepository \<times> event list" where
  "Create r h ctx product =
     (let ctx1 = Start (repo_tracer r) ctx ''ProductRepository.Create'';
          p = h ! product;
          r' = r\<lparr> products := (products r)(ID p \<mapsto> product) \<rparr>
      in (None, r',
          [SpanStart ''ProductRepository.Create'',
           SpanSetAttributes [(''product.id'', StringValue (ID p)),
                              (''product.name'', StringValue (Name p))],
           logEvent (repo_logger r) ctx1 LevelInfo ''Product created in repository''
             [(''product_id'', StringValue (ID p)), (''product_name'', StringValue (Name p))],
           SpanSetStatus codes_Ok ''Product created successfully'',
           SpanEnd ''ProductRepository.Create'']))"

definition FindByID ::
  "ProductRepository \<Rightarrow> heap \<Rightarrow> Context \<Rightarrow> string \<Rightarrow> (error + addr) \<times> event list" where
  "FindByID r h ctx id' =
     (let ctx1 = Start (repo_tracer r) ctx ''ProductRepository.FindByID'';
          pre = [SpanStart ''ProductRepository.FindByID'',
                 SpanSetAttributes [(''product.id'', StringValue id')]]
      in case products r id' of
           None \<Rightarrow>
             (Inl ErrProductNotFound,
              pre @ [SpanRecordError ErrProductNotFound,
                     SpanSetStatus codes_Error ''Product not found'',
                     logEvent (repo_logger r) ctx1 LevelWarn ''Product not found''
                       [(''product_id'', StringValue id')],
                     SpanEnd ''ProductRepository.FindByID''])
         | Some product \<Rightarrow>
             (Inr product,
              pre @ [logEvent (repo_logger r) ctx1 LevelDebug ''Product found in repository''
                       [(''product_id'', StringValue id'),
                        (''product_name'', StringValue (Name (h ! product)))],
                     SpanSetStatus codes_Ok ''Product found'',
                     SpanEnd ''ProductRepository.FindByID'']))"

text \<open>
  \<^verbatim>\<open>FindAll\<close> ranges over the map in an order the Go runtime chooses; \<open>order\<close> is that
  order, a list of the keys.  The result is a new slice; the pointers in it are appended one by
  one.
\<close>

definition FindAll ::
  "ProductRepository \<Rightarrow> string list \<Rightarrow> Context \<Rightarrow> (error + addr list) \<times> event list" where
  "FindAll r order ctx =
     (let ctx1 = Start (repo_tracer r) ctx ''ProductRepository.FindAll'';
          products_slice = foldl (\<lambda>acc k. case products r k of
                                             None \<Rightarrow> acc
                                           | Some product \<Rightarrow> acc @ [product]) [] order
      in (Inr products_slice,
          [SpanStart ''ProductRepository.FindAll'',
           SpanSetAttributes [(''product.count'', IntValue (int (length products_slice)))],
           logEvent (repo_logger r) ctx1 LevelInfo ''Products retrieved from repository''
             [(''count'', IntValue (int (length products_slice)))],
           SpanSetStatus codes_Ok ''Products retrieved successfully'',
           SpanEnd ''ProductRepository.FindAll'']))"

text \<open>
  What a client of the store can see of it: for each identifier, the record stored under it.
  A snapshot taken by \<^verbatim>\<open>FindAll\<close> is read the same way, pointer by pointer.
\<close>

definition records :: "heap \<Rightarrow> ProductRepository \<Rightarrow> string \<rightharpoonup> Product" where
  "records h r id' = (case products r id' of None \<Rightarrow> None | Some a \<Rightarrow> deref h a)"

text \<open>Every pointer the map holds points to an allocated object.\<close>

definition store_ok :: "heap \<Rightarrow> ProductRepository \<Rightarrow> bool" where
  "store_ok h r = (\<forall>a \<in> ran (products r). a < length h)"

definition read_snapshot :: "heap \<Rightarrow> addr list \<Rightarrow> Product option list" where
  "read_snapshot h snapshot = map (deref h) snapshot"


section \<open>Use cases (internal/app/dto, internal/app/service)\<close>

record CreateProductRequest =
  req_Name :: string
  req_Description :: string
  req_Price :: real

record ProductResponse =
  resp_ID :: string
  resp_Name :: string
  resp_Description :: string
  resp_Price :: real
  resp_CreatedAt :: time
  resp_UpdatedAt :: time

definition ToProductResponse :: "heap \<Rightarrow> addr \<Rightarrow> ProductResponse" where
  "ToProductResponse h p =
     \<lparr> resp_ID = ID (h ! p), resp_Name = Name (h ! p), resp_Description = Description (h ! p),
       resp_Price = Price (h ! p), resp_CreatedAt = CreatedAt (h ! p),
       resp_UpdatedAt = UpdatedAt (h ! p) \<rparr>"

definition ToProductResponseList :: "heap \<Rightarrow> addr list \<Rightarrow> ProductResponse list" where
  "ToProductResponseList h ps = map (ToProductResponse h) ps"

text \<open>
  The service holds its tracer and logger; its two counters are \<open>products.created.total\<close>
  and \<open>products.operations\<close>.  The repository it works on is passed in and handed back.
\<close>

record ProductService =
  svc_tracer :: Tracer
  svc_logger :: Handler

definition NewProductService :: "Tracer \<Rightarrow> Handler \<Rightarrow> ProductService" where
  "NewProductService tracer logger = \<lparr> svc_tracer = tracer, svc_logger = logger \<rparr>"

definition operation_attrs :: "string \<Rightarrow> string \<Rightarrow> attr list" where
  "operation_attrs operation result =
     [(''operation'', StringValue operation), (''result'', StringValue result)]"

definition CreateProduct ::
  "ProductService \<Rightarrow> entropy \<Rightarrow> Context \<Rightarrow> CreateProductRequest \<Rightarrow> heap \<Rightarrow> ProductRepository
   \<Rightarrow> (error + ProductResponse) \<times> heap \<times> ProductRepository \<times> event list" where
  "CreateProduct s e ctx0 req h r =
     (let ctx = Start (svc_tracer s) ctx0 ''ProductService.CreateProduct'';
          pre = [SpanStart ''ProductService.CreateProduct'',
                 SpanSetAttributes [(''product.name'', StringValue (req_Name req)),
                                    (''product.price'', Float64Value (req_Price req))],
                 logEvent (svc_logger s) ctx LevelInfo ''Creating product''
                   [(''name'', StringValue (req_Name req)),
                    (''price'', Float64Value (req_Price req))]]
      in case NewProduct e h (req_Name req) (req_Description req) (req_Price req) of
           (Inl err, h1) \<Rightarrow>
             (Inl err, h1, r,
              pre @ [SpanRecordError err,
                     SpanSetStatus codes_Error ''Validation failed'',
                     logEvent (svc_logger s) ctx LevelError ''Failed to create product''
                       [(''error'', StringValue (Error_text err))],
                     CounterAdd ''products.operations'' 1 (operation_attrs ''create'' ''failure''),
                     SpanEnd ''ProductService.CreateProduct''])
         | (Inr product, h1) \<Rightarrow>
             (let pre1 = pre @ [SpanSetAttributes [(''product.id'', StringValue (ID (h1 ! product)))]]
              in case Create r h1 ctx product of
                   (Some err, r1, evs) \<Rightarrow>
                     (Inl err, h1, r1,
                      pre1 @ evs @
                        [SpanRecordError err,
                         SpanSetStatus codes_Error ''Failed to store product'',
                         logEvent (svc_logger s) ctx LevelError ''Failed to store product''
                           [(''error'', StringValue (Error_text err))],
                         CounterAdd ''products.operations'' 1 (operation_attrs ''create'' ''failure''),
                         SpanEnd ''ProductService.CreateProduct''])
                 | (None, r1, evs) \<Rightarrow>
                     (Inr (ToProductResponse h1 product), h1, r1,
                      pre1 @ evs @
                        [CounterAdd ''products.created.total'' 1 [],
                         CounterAdd ''products.operations'' 1 (operation_attrs ''create'' ''success''),
                         logEvent (svc_logger s) ctx LevelInfo ''Product created successfully''
                           [(''product_id'', StringValue (ID (h1 ! product)))],
                         SpanSetStatus codes_Ok ''Product created successfully'',
                         SpanEnd ''ProductService.CreateProduct''])))"

text \<open>The four parts of what a use case or handler hands back.\<close>

definition result_of :: "'a \<times> heap \<times> ProductRepository \<times> event list \<Rightarrow> 'a" where
  "result_of x = fst x"

definition heap_of :: "'a \<times> heap \<times> ProductRepository \<times> event list \<Rightarrow> heap" where
  "heap_of x = fst (snd x)"

definition repo_of :: "'a \<times> heap \<times> ProductRepository \<times> event list \<Rightarrow> ProductRepository" where
  "repo_of x = fst (snd (snd x))"

definition events_of :: "'a \<times> heap \<times> ProductRepository \<times> event list \<Rightarrow> event list" where
  "events_of x = snd (snd (snd x))"

definition GetProductByID ::
  "ProductService \<Rightarrow> Context \<Rightarrow> string \<Rightarrow> heap \<Rightarrow> ProductRepository
   \<Rightarrow> (error + ProductResponse) \<times> event list" where
  "GetProductByID s ctx0 id' h r =
     (let ctx = Start (svc_tracer s) ctx0 ''ProductService.GetProductByID'';
          pre = [SpanStart ''ProductService.GetProductByID'',
                 SpanSetAttributes [(''product.id'', StringValue id')],
                 logEvent (svc_logger s) ctx LevelInfo ''Getting product by ID''
                   [(''product_id'', StringValue id')]]
      in case FindByID r h ctx id' of
           (Inl err, evs) \<Rightarrow>
             (Inl err,
              pre @ evs @
                [SpanRecordError err,
                 SpanSetStatus codes_Error ''Product not found'',
                 logEvent (svc_logger s) ctx LevelWarn ''Product not found''
                   [(''product_id'', StringValue id')],
                 CounterAdd ''products.operations'' 1 (operation_attrs ''read'' ''not_found''),
                 SpanEnd ''ProductService.GetProductByID''])
         | (Inr product, evs) \<Rightarrow>
             (Inr (ToProductResponse h product),
              pre @ evs @
                [CounterAdd ''products.operations'' 1 (operation_attrs ''read'' ''success''),
                 logEvent (svc_logger s) ctx LevelInfo ''Product retrieved successfully''
                   [(''product_id'', StringValue id')],
                 SpanSetStatus codes_Ok ''Product retrieved successfully'',
                 SpanEnd ''ProductService.GetProductByID'']))"

definition ListProducts ::
  "ProductService \<Rightarrow> Context \<Rightarrow> string list \<Rightarrow> heap \<Rightarrow> ProductRepository
   \<Rightarrow> (error + ProductResponse list) \<times> event list" where
  "ListProducts s ctx0 order h r =
     (let ctx = Start (svc_tracer s) ctx0 ''ProductService.ListProducts'';
          pre = [SpanStart ''ProductService.ListProducts'',
                 logEvent (svc_logger s) ctx LevelInfo ''Listing all products'' []]
      in case FindAll r order ctx of
           (Inl err, evs) \<Rightarrow>
             (Inl err,
              pre @ evs @
                [SpanRecordError err,
                 SpanSetStatus codes_Error ''Failed to retrieve products'',
                 logEvent (svc_logger s) ctx LevelError ''Failed to list products''
                   [(''error'', StringValue (Error_text err))],
                 CounterAdd ''products.operations'' 1 (operation_attrs ''list'' ''failure''),
                 SpanEnd ''ProductService.ListProducts''])
         | (Inr ps, evs) \<Rightarrow>
             (Inr (ToProductResponseList h ps),
              pre @ evs @
                [SpanSetAttributes [(''product.count'', IntValue (int (length ps)))],
                 CounterAdd ''products.operations'' 1 (operation_attrs ''list'' ''success''),
                 logEvent (svc_logger s) ctx LevelInfo ''Products listed successfully''
                   [(''count'', IntValue (int (length ps)))],
                 SpanSetStatus codes_Ok ''Products listed successfully'',
                 SpanEnd ''ProductService.ListProducts'']))"

section \<open>HTTP responses and handlers (internal/infrastructure/http/response, .../handler)\<close>

record ErrorResponse =
  err_Error :: string
  err_Message :: string

datatype body =
    ErrorBody ErrorResponse
  | ProductBody ProductResponse
  | ProductListBody "ProductResponse list"

text \<open>
  What \<^verbatim>\<open>response.JSON\<close> puts on the wire: the status line, the content type, and the value
  it hands to the JSON encoder.
\<close>

record Response =
  status :: nat
  content_type :: string
  payload :: body

definition StatusOK :: nat where "StatusOK = 200"
definition StatusCreated :: nat where "StatusCreated = 201"
definition StatusBadRequest :: nat where "StatusBadRequest = 400"
definition StatusNotFound :: nat where "StatusNotFound = 404"
definition StatusInternalServerError :: nat where "StatusInternalServerError = 500"

definition response_JSON :: "nat \<Rightarrow> body \<Rightarrow> Response" where
  "response_JSON st data = \<lparr> status = st, content_type = ''application/json'', payload = data \<rparr>"

definition response_Error :: "nat \<Rightarrow> error \<Rightarrow> Response" where
  "response_Error st err =
     (let errorType =
            (if st = StatusNotFound then ''not_found''
             else if st = StatusBadRequest then ''bad_request''
             else if st = StatusInternalServerError then ''internal_server_error''
             else ''error'')
      in response_JSON st (ErrorBody \<lparr> err_Error = errorType, err_Message = Error_text err \<rparr>))"

text \<open>
  The validation errors: the ones \<^verbatim>\<open>CreateProduct\<close> of the handler answers with
  400 Bad Request.
\<close>

definition ValidationError :: "error \<Rightarrow> bool" where
  "ValidationError err = (err = ErrInvalidProductName \<or> err = ErrInvalidProductPrice)"

record ProductHandler =
  service :: ProductService
  logger :: Handler

definition NewProductHandler :: "ProductService \<Rightarrow> Handler \<Rightarrow> ProductHandler" where
  "NewProductHandler s l = \<lparr> service = s, logger = l \<rparr>"

text \<open>
  \<open>decoded\<close> is what the JSON decoder makes of the request body: an error, or the request.
\<close>

definition handler_CreateProduct ::
  "ProductHandler \<Rightarrow> entropy \<Rightarrow> Context \<Rightarrow> error + CreateProductRequest \<Rightarrow> heap
   \<Rightarrow> ProductRepository \<Rightarrow> Response \<times> heap \<times> ProductRepository \<times> event list" where
  "handler_CreateProduct ph e ctx decoded h r =
     (case decoded of
        Inl err \<Rightarrow>
          (response_Error StatusBadRequest err, h, r,
           [logEvent (logger ph) ctx LevelError ''Failed to decode request body''
              [(''error'', StringValue (Error_text err))]])
      | Inr req \<Rightarrow>
          (case CreateProduct (service ph) e ctx req h r of
             (Inl err, h1, r1, evs) \<Rightarrow>
               (if err = ErrInvalidProductName \<or> err = ErrInvalidProductPrice
                then (response_Error StatusBadRequest err, h1, r1, evs)
                else (response_Error StatusInternalServerError err, h1, r1, evs))
           | (Inr product, h1, r1, evs) \<Rightarrow>
               (response_JSON StatusCreated (ProductBody product), h1, r1, evs)))"

definition handler_GetProduct ::
  "ProductHandler \<Rightarrow> Context \<Rightarrow> string \<Rightarrow> heap \<Rightarrow> ProductRepository \<Rightarrow> Response \<times> event list" where
  "handler_GetProduct ph ctx id' h r =
     (case GetProductByID (service ph) ctx id' h r of
        (Inl err, evs) \<Rightarrow>
          (if err = ErrProductNotFound then (response_Error StatusNotFound err, evs)
           else (response_Error StatusInternalServerError err, evs))
      | (Inr product, evs) \<Rightarrow> (response_JSON StatusOK (ProductBody product), evs))"

definition handler_ListProducts ::
  "ProductHandler \<Rightarrow> Context \<Rightarrow> string list \<Rightarrow> heap \<Rightarrow> ProductRepository \<Rightarrow> Response \<times> event list" where
  "handler_ListProducts ph ctx order h r =
     (case ListProducts (service ph) ctx order h r of
        (Inl err, evs) \<Rightarrow> (response_Error StatusInternalServerError err, evs)
      | (Inr ps, evs) \<Rightarrow> (response_JSON StatusOK (ProductListBody ps), evs))"


section \<open>Telemetry providers (internal/infrastructure/telemetry)\<close>

text \<open>
  A tracer provider is known by the exporters its spans are sent to, a meter provider by its
  readers.  A provider without exporters or readers still creates spans and instruments; it
  never sends anything.
\<close>

datatype span_exporter = OTLPTraceExporter string

datatype metric_reader = PeriodicReader string | PrometheusReader

record Telemetry =
  TracerProvider :: "span_exporter list"
  MeterProvider :: "metric_reader list"
  Logger :: Handler

text \<open>
  What the OpenTelemetry SDK and the gRPC client library decide: whether each constructor
  called by \<^verbatim>\<open>initMeterProvider\<close> fails, what \<^verbatim>\<open>initTracerProvider\<close> returns (that function
  is not among the sources at hand, so its result is taken as given), and which span context
  the tracer gives to a span it starts.
\<close>

record otel_sdk =
  resource_New :: "error option"
  grpc_NewClient :: "error option"
  otlpmetricgrpc_New :: "error option"
  prometheusExporter_New :: "error option"
  initTracerProvider :: "error + span_exporter list"
  sdk_Tracer :: Tracer

definition Errorf :: "string \<Rightarrow> error \<Rightarrow> error" where
  "Errorf format err = OtherError (format @ '': '' @ Error_text err)"

definition initMeterProvider :: "otel_sdk \<Rightarrow> OTLPConfig \<Rightarrow> error + metric_reader list" where
  "initMeterProvider sdk cfg =
     (case resource_New sdk of
        Some err \<Rightarrow> Inl (Errorf ''failed to create resource'' err)
      | None \<Rightarrow>
     (case grpc_NewClient sdk of
        Some err \<Rightarrow> Inl (Errorf ''failed to create gRPC connection'' err)
      | None \<Rightarrow>
     (case otlpmetricgrpc_New sdk of
        Some err \<Rightarrow> Inl (Errorf ''failed to create OTLP metric exporter'' err)
      | None \<Rightarrow>
     (case prometheusExporter_New sdk of
        Some err \<Rightarrow> Inl (Errorf ''failed to create Prometheus exporter'' err)
      | None \<Rightarrow> Inr [PeriodicReader (Endpoint cfg), PrometheusReader]))))"

definition Info :: "Handler \<Rightarrow> string \<Rightarrow> attr list \<Rightarrow> LogLine" where
  "Info l msg attrs =
     Handle l Background \<lparr> rec_Level = LevelInfo, rec_Message = msg, rec_Attrs = attrs \<rparr>"

definition NewTelemetry :: "otel_sdk \<Rightarrow> OTLPConfig \<Rightarrow> (error + Telemetry) \<times> LogLine list" where
  "NewTelemetry sdk cfg =
     (let l = initLogger cfg;
          line1 = Info l ''Initializing OpenTelemetry''
                    [(''endpoint'', StringValue (Endpoint cfg)),
                     (''service_name'', StringValue (ServiceName cfg))]
      in case initTracerProvider sdk of
           Inl err \<Rightarrow> (Inl (Errorf ''failed to initialize tracer provider'' err), [line1])
         | Inr tp \<Rightarrow>
             (let line2 = Info l ''Tracer provider initialized successfully'' []
              in case initMeterProvider sdk cfg of
                   Inl err \<Rightarrow>
                     (Inl (Errorf ''failed to initialize meter provider'' err), [line1, line2])
                 | Inr mp \<Rightarrow>
                     (Inr \<lparr> TracerProvider = tp, MeterProvider = mp, Logger = l \<rparr>,
                      [line1, line2,
                       Info l ''Meter provider initialized successfully (OTLP + Prometheus exporters)'' []])))"

definition NewNoOpTelemetry :: "OTLPConfig \<Rightarrow> Telemetry \<times> LogLine list" where
  "NewNoOpTelemetry cfg =
     (let l = WithAttrs (JSONHandler [])
                [(''service.name'', StringValue (ServiceName cfg)),
                 (''environment'', StringValue (Environment cfg))]
      in (\<lparr> TracerProvider = [], MeterProvider = [], Logger = l \<rparr>,
          [Info l ''Telemetry initialized in no-op mode (export disabled)'' []]))"

section \<open>Process wiring (main.go)\<close>

text \<open>
  \<^verbatim>\<open>main\<close> up to the point where the server starts: either the process exits
  (\<^verbatim>\<open>log.Fatalf\<close>) or the handler, the repository and the telemetry are in place.  Lines of
  the standard \<^verbatim>\<open>log\<close> package go to standard error and are left out.
\<close>

record App =
  app_telemetry :: Telemetry
  app_repo :: ProductRepository
  app_handler :: ProductHandler

datatype process = Exited string | Running App

definition main :: "environ \<Rightarrow> otel_sdk \<Rightarrow> process \<times> LogLine list" where
  "main env sdk =
     (let cfg = LoadConfig env;
          (started, lines) =
             (if Enabled (OTLP cfg) then NewTelemetry sdk (OTLP cfg)
              else (let (telem, ls) = NewNoOpTelemetry (OTLP cfg) in (Inr telem, ls)))
      in case started of
           Inl err \<Rightarrow> (Exited (''Failed to initialize telemetry: '' @ Error_text err), lines)
         | Inr telem \<Rightarrow>
             (let tracer = sdk_Tracer sdk;
                  l = Logger telem;
                  repo = NewProductRepository tracer l;
                  productService = NewProductService tracer l;
                  productHandler = NewProductHandler productService l
              in (Running \<lparr> app_telemetry = telem, app_repo = repo, app_handler = productHandler \<rparr>,
                  lines @ [Info l ''Starting Products API'' []])))"

text \<open>
  The three product routes, each with what it reads from outside: the decoded body and the
  identifier and clock sources for a create, the map iteration order for a list, the
  \<open>id\<close> URL parameter for a get.  The context is the one the middleware chain hands to the
  handler.
\<close>

datatype route_call =
    POST_products "error + CreateProductRequest" entropy
  | GET_products "string list"
  | GET_product string

fun serve ::
  "ProductHandler \<Rightarrow> Context \<Rightarrow> route_call \<Rightarrow> heap \<Rightarrow> ProductRepository
   \<Rightarrow> Response \<times> heap \<times> ProductRepository \<times> event list" where
  "serve ph ctx (POST_products decoded e) h r = handler_CreateProduct ph e ctx decoded h r"
| "serve ph ctx (GET_products order) h r =
     (case handler_ListProducts ph ctx order h r of (resp, evs) \<Rightarrow> (resp, h, r, evs))"
| "serve ph ctx (GET_product id') h r =
     (case handler_GetProduct ph ctx id' h r of (resp, evs) \<Rightarrow> (resp, h, r, evs))"

fun serve_all ::
  "ProductHandler \<Rightarrow> (Context \<times> route_call) list \<Rightarrow> heap \<Rightarrow> ProductRepository
   \<Rightarrow> Response list \<times> heap \<times> ProductRepository \<times> event list" where
  "serve_all ph [] h r = ([], h, r, [])"
| "serve_all ph ((ctx, c) # cs) h r =
     (case serve ph ctx c h r of
        (resp, h1, r1, evs) \<Rightarrow>
          (case serve_all ph cs h1 r1 of
             (resps, h2, r2, evs') \<Rightarrow> (resp # resps, h2, r2, evs @ evs')))"

section \<open>Active requests middleware (internal/infrastructure/http/middleware)\<close>

record Request =
  http_Method :: string
  http_URL_Path :: string
  http_Host :: string

text \<open>
  A handler is seen through what it does to the response writer it was given, in order:
  calls of \<^verbatim>\<open>WriteHeader\<close> and \<^verbatim>\<open>Write\<close>.  While it runs, the router may match the request
  and record the pattern in the chi route context of the request; \<open>Routed\<close> is that moment.
\<close>

datatype writer_call = WriteHeader nat | Write string

datatype step = Call writer_call | Routed string

text \<open>
  The wrapper with everything it reaches through its pointers: the calls forwarded so far to
  the writer it embeds, the request, the route pattern that
  \<^verbatim>\<open>chi.RouteContext(request.Context())\<close> currently reports (\<open>None\<close> when there is no chi
  context), and the \<^verbatim>\<open>Add\<close> calls it has made on the up-down counter.
\<close>

record routeAwareWriter =
  ResponseWriter :: "writer_call list"
  request :: Request
  RouteContext :: "string option"
  activeRequests :: "(int \<times> attr list) list"
  incrementDone :: bool
  decrementDone :: bool

definition routePattern :: "routeAwareWriter \<Rightarrow> string" where
  "routePattern w =
     (case RouteContext w of
        None \<Rightarrow> http_URL_Path (request w)
      | Some pattern \<Rightarrow> if pattern \<noteq> [] then pattern else http_URL_Path (request w))"

definition metric_attrs :: "routeAwareWriter \<Rightarrow> attr list" where
  "metric_attrs w =
     [(''http.request.method'', StringValue (http_Method (request w))),
      (''http.route'', StringValue (routePattern w)),
      (''server.address'', StringValue (http_Host (request w)))]"

definition incrementIfNeeded :: "routeAwareWriter \<Rightarrow> routeAwareWriter" where
  "incrementIfNeeded w =
     (if incrementDone w then w
      else (let w1 = w\<lparr> incrementDone := True \<rparr>
            in w1\<lparr> activeRequests := activeRequests w1 @ [(1, metric_attrs w1)] \<rparr>))"

definition ensureDecrement :: "routeAwareWriter \<Rightarrow> routeAwareWriter" where
  "ensureDecrement w =
     (if decrementDone w then w
      else (let w1 = w\<lparr> decrementDone := True \<rparr>;
                w2 = (if \<not> incrementDone w1 then incrementIfNeeded w1 else w1)
            in w2\<lparr> activeRequests := activeRequests w2 @ [(- 1, metric_attrs w2)] \<rparr>))"

fun wrapper_step :: "routeAwareWriter \<Rightarrow> step \<Rightarrow> routeAwareWriter" where
  "wrapper_step w (Call c) =
     (let w1 = incrementIfNeeded w in w1\<lparr> ResponseWriter := ResponseWriter w1 @ [c] \<rparr>)"
| "wrapper_step w (Routed pattern) =
     w\<lparr> RouteContext := (case RouteContext w of None \<Rightarrow> None | Some _ \<Rightarrow> Some pattern) \<rparr>"

definition next_ServeHTTP :: "step list \<Rightarrow> routeAwareWriter \<Rightarrow> routeAwareWriter" where
  "next_ServeHTTP next w = foldl wrapper_step w next"

fun writer_calls :: "step list \<Rightarrow> writer_call list" where
  "writer_calls [] = []"
| "writer_calls (Call c # steps) = c # writer_calls steps"
| "writer_calls (Routed pattern # steps) = writer_calls steps"

text \<open>
  What a request leaves behind: the calls that reached the server's own response writer and
  the \<^verbatim>\<open>Add\<close> calls on the counter.  \<open>counter_err\<close> tells whether creating the counter failed
  when the middleware was built; the middleware is then the identity.
\<close>

record served =
  written :: "writer_call list"
  added :: "(int \<times> attr list) list"

definition new_routeAwareWriter :: "Request \<Rightarrow> string option \<Rightarrow> routeAwareWriter" where
  "new_routeAwareWriter r rctx =
     \<lparr> ResponseWriter = [], request = r, RouteContext = rctx, activeRequests = [],
       incrementDone = False, decrementDone = False \<rparr>"

definition ActiveRequestsMiddleware ::
  "bool \<Rightarrow> step list \<Rightarrow> Request \<Rightarrow> string option \<Rightarrow> served" where
  "ActiveRequestsMiddleware counter_err next r rctx =
     (if counter_err then \<lparr> written = writer_calls next, added = [] \<rparr>
      else (let wrapper = new_routeAwareWriter r rctx;
                w1 = next_ServeHTTP next wrapper;
                w2 = ensureDecrement w1
            in \<lparr> written = ResponseWriter w2, added = activeRequests w2 \<rparr>))"


text \<open>While the handler runs: no decrement yet, and one increment once anything was written.\<close>

definition running :: "routeAwareWriter \<Rightarrow> bool" where
  "running w = (\<not> decrementDone w \<and>
                (if incrementDone w then map fst (activeRequests w) = [1]
                 else activeRequests w = []))"

section \<open>Properties\<close>

text \<open>
  C10.  The OTEL\_ENABLED flag is read case-sensitively against a fixed accept-list: unset or
  empty gives the default \<open>True\<close>; a non-empty value gives \<open>True\<close> exactly when it is one of
  the strings "true", "1", "yes", and \<open>False\<close> for everything else.
\<close>

theorem OTEL_ENABLED_accept_list:
  "Enabled (OTLP (LoadConfig env)) =
     (case env ''OTEL_ENABLED'' of
        None \<Rightarrow> True
      | Some v \<Rightarrow> if v = [] then True else v \<in> {''true'', ''1'', ''yes''})"
  by (simp add: LoadConfig_def getEnvBool_def Getenv_def split: option.split)

theorem OTEL_ENABLED_accept_list_witness:
  "Enabled (OTLP (LoadConfig Map.empty))
   \<and> Enabled (OTLP (LoadConfig [''OTEL_ENABLED'' \<mapsto> '''']))
   \<and> Enabled (OTLP (LoadConfig [''OTEL_ENABLED'' \<mapsto> ''true'']))
   \<and> Enabled (OTLP (LoadConfig [''OTEL_ENABLED'' \<mapsto> ''1'']))
   \<and> Enabled (OTLP (LoadConfig [''OTEL_ENABLED'' \<mapsto> ''yes'']))
   \<and> \<not> Enabled (OTLP (LoadConfig [''OTEL_ENABLED'' \<mapsto> ''TRUE'']))
   \<and> \<not> Enabled (OTLP (LoadConfig [''OTEL_ENABLED'' \<mapsto> ''True'']))
   \<and> \<not> Enabled (OTLP (LoadConfig [''OTEL_ENABLED'' \<mapsto> ''on'']))
   \<and> \<not> Enabled (OTLP (LoadConfig [''OTEL_ENABLED'' \<mapsto> ''false'']))"
  using OTEL_ENABLED_accept_list [of Map.empty]
        OTEL_ENABLED_accept_list [of "[''OTEL_ENABLED'' \<mapsto> '''']"]
        OTEL_ENABLED_accept_list [of "[''OTEL_ENABLED'' \<mapsto> ''true'']"]
        OTEL_ENABLED_accept_list [of "[''OTEL_ENABLED'' \<mapsto> ''1'']"]
        OTEL_ENABLED_accept_list [of "[''OTEL_ENABLED'' \<mapsto> ''yes'']"]
        OTEL_ENABLED_accept_list [of "[''OTEL_ENABLED'' \<mapsto> ''TRUE'']"]
        OTEL_ENABLED_accept_list [of "[''OTEL_ENABLED'' \<mapsto> ''True'']"]
        OTEL_ENABLED_accept_list [of "[''OTEL_ENABLED'' \<mapsto> ''on'']"]
        OTEL_ENABLED_accept_list [of "[''OTEL_ENABLED'' \<mapsto> ''false'']"]
  by simp

subsection \<open>Active requests middleware\<close>

lemma incrementIfNeeded_fields [simp]:
  "request (incrementIfNeeded w) = request w"
  "RouteContext (incrementIfNeeded w) = RouteContext w"
  "decrementDone (incrementIfNeeded w) = decrementDone w"
  "incrementDone (incrementIfNeeded w) = True"
  "ResponseWriter (incrementIfNeeded w) = ResponseWriter w"
  by (simp_all add: incrementIfNeeded_def Let_def)

lemma metric_attrs_update [simp]:
  "metric_attrs (w\<lparr> incrementDone := b \<rparr>) = metric_attrs w"
  "metric_attrs (w\<lparr> decrementDone := b \<rparr>) = metric_attrs w"
  "metric_attrs (w\<lparr> activeRequests := adds \<rparr>) = metric_attrs w"
  "metric_attrs (w\<lparr> ResponseWriter := calls \<rparr>) = metric_attrs w"
  by (simp_all add: metric_attrs_def routePattern_def split: option.split)

lemma metric_attrs_incrementIfNeeded [simp]:
  "metric_attrs (incrementIfNeeded w) = metric_attrs w"
  by (simp add: incrementIfNeeded_def Let_def)

lemma incrementIfNeeded_adds:
  "activeRequests (incrementIfNeeded w) =
     (if incrementDone w then activeRequests w
      else activeRequests w @ [(1, metric_attrs w)])"
  by (simp add: incrementIfNeeded_def Let_def)

lemma running_step: "running w \<Longrightarrow> running (wrapper_step w s)"
  by (cases s) (auto simp: running_def incrementIfNeeded_adds Let_def split: if_splits)

lemma running_next: "running w \<Longrightarrow> running (next_ServeHTTP steps w)"
  unfolding next_ServeHTTP_def
  by (induction steps arbitrary: w) (simp_all add: running_step)

lemma running_new: "running (new_routeAwareWriter r rctx)"
  by (simp add: running_def new_routeAwareWriter_def)

lemma ensureDecrement_running:
  "running w \<Longrightarrow> map fst (activeRequests (ensureDecrement w)) = [1, - 1]"
  by (auto simp: running_def ensureDecrement_def incrementIfNeeded_adds Let_def split: if_splits)

lemma incrementDone_step:
  "incrementDone (wrapper_step w s) = (incrementDone w \<or> (\<exists>c. s = Call c))"
  by (cases s) (simp_all add: Let_def)

lemma incrementDone_next:
  "incrementDone (next_ServeHTTP steps w) = (incrementDone w \<or> writer_calls steps \<noteq> [])"
  unfolding next_ServeHTTP_def
proof (induction steps arbitrary: w)
  case Nil
  then show ?case by simp
next
  case (Cons s steps)
  then show ?case by (cases s) (simp_all add: Let_def)
qed

lemma ensureDecrement_unwritten:
  "\<not> incrementDone w \<Longrightarrow> \<not> decrementDone w \<Longrightarrow> activeRequests w = [] \<Longrightarrow>
     activeRequests (ensureDecrement w) = [(1, metric_attrs w), (- 1, metric_attrs w)]"
  by (simp add: ensureDecrement_def incrementIfNeeded_adds Let_def)

text \<open>
  C1.  For every request that goes through the active requests middleware (the counter having
  been created), the counter receives exactly one \<open>+1\<close> and then exactly one \<open>-1\<close>,
  whatever the handler writes.  A handler that never writes leaves the counter untouched until
  it returns, and the finalization step then makes the increment immediately before the
  decrement (with the same attributes); a handler that writes has made the one increment by the
  time it returns, however many writes followed.
\<close>

theorem active_requests_one_pair:
  assumes "\<not> counter_err"
  shows "map fst (added (ActiveRequestsMiddleware counter_err steps r rctx)) = [1, - 1]
       \<and> (writer_calls steps = [] \<longrightarrow>
            activeRequests (next_ServeHTTP steps (new_routeAwareWriter r rctx)) = []
            \<and> (\<exists>attrs. added (ActiveRequestsMiddleware counter_err steps r rctx)
                          = [(1, attrs), (- 1, attrs)]))
       \<and> (writer_calls steps \<noteq> [] \<longrightarrow>
            map fst (activeRequests (next_ServeHTTP steps (new_routeAwareWriter r rctx))) = [1])"
proof -
  let ?w = "next_ServeHTTP steps (new_routeAwareWriter r rctx)"
  have run: "running ?w"
    by (rule running_next [OF running_new])
  have done_iff: "incrementDone ?w = (writer_calls steps \<noteq> [])"
    by (simp add: incrementDone_next new_routeAwareWriter_def)
  have pair: "map fst (added (ActiveRequestsMiddleware counter_err steps r rctx)) = [1, - 1]"
    using assms ensureDecrement_running [OF run]
    by (simp add: ActiveRequestsMiddleware_def Let_def)
  have unwritten: "activeRequests ?w = []
      \<and> (\<exists>attrs. added (ActiveRequestsMiddleware counter_err steps r rctx) = [(1, attrs), (- 1, attrs)])"
    if "writer_calls steps = []"
  proof -
    from that done_iff have nd: "\<not> incrementDone ?w" by simp
    with run have e: "activeRequests ?w = []" and d: "\<not> decrementDone ?w"
      by (simp_all add: running_def)
    from ensureDecrement_unwritten [OF nd d e] assms e show ?thesis
      by (simp add: ActiveRequestsMiddleware_def Let_def)
  qed
  have writtenp: "map fst (activeRequests ?w) = [1]" if "writer_calls steps \<noteq> []"
    using that done_iff run by (simp add: running_def)
  from pair unwritten writtenp show ?thesis by blast
qed

theorem active_requests_one_pair_witness:
  "map fst (added (ActiveRequestsMiddleware False []
       \<lparr> http_Method = ''GET'', http_URL_Path = ''/health'', http_Host = ''localhost:8080'' \<rparr>
       (Some ''/health''))) = [1, - 1]
   \<and> map fst (added (ActiveRequestsMiddleware False
       [Call (WriteHeader 200), Call (Write ''OK''), Call (Write ''!'')]
       \<lparr> http_Method = ''GET'', http_URL_Path = ''/health'', http_Host = ''localhost:8080'' \<rparr>
       (Some ''/health''))) = [1, - 1]"
  using active_requests_one_pair [of False "[]"]
        active_requests_one_pair [of False "[Call (WriteHeader 200), Call (Write ''OK''), Call (Write ''!'')]"]
  by simp

text \<open>
  C2.  The attribute set (method, route, host) given to the increment should equal the one
  given to the decrement.  The wrapper does not keep the attributes of the increment: it
  computes them again at the decrement from the route context as it is then.  For
  \<open>GET /products/42\<close>, a first write before the router has recorded the pattern, and the
  pattern \<open>/products/{id}\<close> recorded afterwards, the increment is labelled with the raw path
  and the decrement with the pattern.
\<close>

theorem attrs_differ_when_routed_after_first_write:
  "added (ActiveRequestsMiddleware False
       [Call (WriteHeader 200), Routed ''/products/{id}'']
       \<lparr> http_Method = ''GET'', http_URL_Path = ''/products/42'', http_Host = ''localhost:8080'' \<rparr>
       (Some []))
   = [(1, [(''http.request.method'', StringValue ''GET''),
           (''http.route'', StringValue ''/products/42''),
           (''server.address'', StringValue ''localhost:8080'')]),
      (- 1, [(''http.request.method'', StringValue ''GET''),
           (''http.route'', StringValue ''/products/{id}''),
           (''server.address'', StringValue ''localhost:8080'')])]"
  by (simp add: ActiveRequestsMiddleware_def new_routeAwareWriter_def next_ServeHTTP_def
        ensureDecrement_def incrementIfNeeded_def metric_attrs_def routePattern_def Let_def)

end
